theory Spec2Isabelle
  imports Main
begin

section \<open>Python strings\<close>

text \<open>
  A Python \<open>str\<close> is modelled as a \<open>string\<close>; a \<open>char\<close> stands for the code point of
  the same number, so the model covers the texts over U+0000 .. U+00FF. The character
  classes below are those of CPython on that range.
\<close>

definition py_isspace :: "char \<Rightarrow> bool" where
  "py_isspace c = (let n = (of_char c :: nat) in
     (9 \<le> n \<and> n \<le> 13) \<or> (28 \<le> n \<and> n \<le> 32) \<or> n = 133 \<or> n = 160)"

definition py_isupper :: "char \<Rightarrow> bool" where
  "py_isupper c = (let n = (of_char c :: nat) in
     (65 \<le> n \<and> n \<le> 90) \<or> (192 \<le> n \<and> n \<le> 214) \<or> (216 \<le> n \<and> n \<le> 222))"

definition py_isalnum :: "char \<Rightarrow> bool" where
  "py_isalnum c = (let n = (of_char c :: nat) in
     (48 \<le> n \<and> n \<le> 57) \<or> (65 \<le> n \<and> n \<le> 90) \<or> (97 \<le> n \<and> n \<le> 122) \<or>
     n = 170 \<or> n = 178 \<or> n = 179 \<or> n = 181 \<or> n = 185 \<or> n = 186 \<or>
     (188 \<le> n \<and> n \<le> 190) \<or> (192 \<le> n \<and> n \<le> 214) \<or> (216 \<le> n \<and> n \<le> 246) \<or>
     (248 \<le> n \<and> n \<le> 255))"

definition py_lower_char :: "char \<Rightarrow> char" where
  "py_lower_char c = (if py_isupper c then char_of (of_char c + (32::nat)) else c)"

text \<open>\<open>s.lower()\<close>\<close>

definition py_lower :: "string \<Rightarrow> string" where
  "py_lower s = map py_lower_char s"

text \<open>\<open>s.lstrip(chars)\<close>, \<open>s.strip(chars)\<close> and \<open>s.strip()\<close>\<close>

definition py_lstrip :: "string \<Rightarrow> string \<Rightarrow> string" where
  "py_lstrip chars s = dropWhile (\<lambda>c. c \<in> set chars) s"

definition py_strip_chars :: "'a list \<Rightarrow> 'a list \<Rightarrow> 'a list" where
  "py_strip_chars chars s =
     rev (dropWhile (\<lambda>c. c \<in> set chars) (rev (dropWhile (\<lambda>c. c \<in> set chars) s)))"

definition py_strip :: "string \<Rightarrow> string" where
  "py_strip s = rev (dropWhile py_isspace (rev (dropWhile py_isspace s)))"

text \<open>\<open>s.startswith(p)\<close>\<close>

fun startswith :: "string \<Rightarrow> string \<Rightarrow> bool" where
  "startswith s [] = True"
| "startswith [] (p # ps) = False"
| "startswith (c # cs) (p # ps) = (c = p \<and> startswith cs ps)"

text \<open>\<open>sub in s\<close>\<close>

fun py_in :: "string \<Rightarrow> string \<Rightarrow> bool" where
  "py_in sub [] = (sub = [])"
| "py_in sub (c # cs) = (startswith (c # cs) sub \<or> py_in sub cs)"

text \<open>\<open>any(keyword in s for keyword in keywords)\<close>\<close>

definition any_keyword_in :: "string list \<Rightarrow> string \<Rightarrow> bool" where
  "any_keyword_in keywords s = list_ex (\<lambda>keyword. py_in keyword s) keywords"

text \<open>\<open>s.split(d)\<close> for a one-character separator: the result is never empty.\<close>

definition cons_first :: "char \<Rightarrow> string list \<Rightarrow> string list" where
  "cons_first c parts = (case parts of [] \<Rightarrow> [[c]] | p # ps \<Rightarrow> (c # p) # ps)"

fun py_split :: "char \<Rightarrow> string \<Rightarrow> string list" where
  "py_split d [] = [[]]"
| "py_split d (c # cs) =
     (if c = d then [] # py_split d cs else cons_first c (py_split d cs))"

text \<open>\<open>sep.join(xs)\<close>\<close>

fun py_join :: "string \<Rightarrow> string list \<Rightarrow> string" where
  "py_join sep [] = []"
| "py_join sep [x] = x"
| "py_join sep (x # y # ys) = x @ sep @ py_join sep (y # ys)"

text \<open>\<open>str(n)\<close> for a length or a line number\<close>

fun str_of_nat :: "nat \<Rightarrow> string" where
  "str_of_nat n =
     (if n < 10 then [''0123456789'' ! n]
      else str_of_nat (n div 10) @ [''0123456789'' ! (n mod 10)])"


section \<open>Validator (agents/validator.py)\<close>

record validation_result =
  valid :: bool
  errors :: "string list"
  warnings :: "string list"
  score :: int
  suggestions :: "string list"

text \<open>
  \<open>self.validation_rules[doc_type].get('required_sections', [])\<close>; \<open>None\<close> when
  \<open>doc_type\<close> is no key of \<open>validation_rules\<close>.
\<close>

definition validation_rules :: "string \<Rightarrow> string list option" where
  "validation_rules doc_type =
     (if doc_type = ''markdown'' then Some []
      else if doc_type = ''brd'' then
        Some [''Executive Summary'', ''Business Objectives'',
              ''Functional Requirements'', ''Non-functional Requirements'']
      else if doc_type = ''srs'' then
        Some [''System Overview'', ''Functional Specifications'',
              ''Technical Requirements'', ''Interface Requirements'']
      else None)"

text \<open>The loop of \<open>_check_basic_format\<close> over \<open>enumerate(lines, 1)\<close>.\<close>

fun long_line_warnings :: "nat \<Rightarrow> string list \<Rightarrow> string list" where
  "long_line_warnings i [] = []"
| "long_line_warnings i (line # lines) =
     (if length line > 200
      then (''Line '' @ str_of_nat i @ '' is very long ('' @ str_of_nat (length line)
              @ '' characters)'') # long_line_warnings (Suc i) lines
      else long_line_warnings (Suc i) lines)"

definition check_basic_format :: "string \<Rightarrow> validation_result \<Rightarrow> validation_result" where
  "check_basic_format content result =
     (if py_strip content = []
      then result\<lparr>errors := errors result @ [''Document is empty'']\<rparr>
      else
        let lines = py_split CHR ''\<newline>'' content;
            result1 = result\<lparr>warnings := warnings result @ long_line_warnings 1 lines\<rparr>
        in if length lines < 5
           then result1\<lparr>warnings := warnings result1 @ [''Document seems too short'']\<rparr>
           else result1)"

text \<open>
  The first loop of \<open>_check_markdown_structure\<close>; the state is
  \<open>(has_headers, header_levels)\<close>. The level is counted on the line as it is, not on
  its stripped form.
\<close>

fun scan_headers :: "string list \<Rightarrow> bool \<times> nat list \<Rightarrow> bool \<times> nat list" where
  "scan_headers [] st = st"
| "scan_headers (line # lines) (has_headers, header_levels) =
     (if startswith (py_strip line) ''#''
      then scan_headers lines
             (True, header_levels @ [length line - length (py_lstrip ''#'' line)])
      else scan_headers lines (has_headers, header_levels))"

text \<open>The second loop, which stops at the first skipped level.\<close>

fun hierarchy_skipped :: "nat list \<Rightarrow> bool" where
  "hierarchy_skipped (a # b # rest) = (b > a + 1 \<or> hierarchy_skipped (b # rest))"
| "hierarchy_skipped _ = False"

definition check_markdown_structure ::
    "string \<Rightarrow> validation_result \<Rightarrow> validation_result" where
  "check_markdown_structure content result =
     (let lines = py_split CHR ''\<newline>'' content;
          (has_headers, header_levels) = scan_headers lines (False, []);
          result1 = (if \<not> has_headers
                     then result\<lparr>errors := errors result @ [''No markdown headers found'']\<rparr>
                     else result)
      in if header_levels \<noteq> [] \<and> hierarchy_skipped header_levels
         then result1\<lparr>warnings := warnings result1 @ [''Header level skipped - poor hierarchy'']\<rparr>
         else result1)"

definition missing_sections :: "string list \<Rightarrow> string \<Rightarrow> string list" where
  "missing_sections required_sections content =
     (let content_lower = py_lower content
      in filter (\<lambda>section. \<not> py_in (py_lower section) content_lower) required_sections)"

definition check_document_sections ::
    "string \<Rightarrow> string \<Rightarrow> validation_result \<Rightarrow> validation_result" where
  "check_document_sections content doc_type result =
     (case validation_rules doc_type of
        None \<Rightarrow> result
      | Some required_sections \<Rightarrow>
          let missing = missing_sections required_sections content
          in if missing \<noteq> []
             then result\<lparr>errors := errors result
                    @ map (\<lambda>section. ''Missing required section: '' @ section) missing\<rparr>
             else result)"

definition calculate_score :: "validation_result \<Rightarrow> int" where
  "calculate_score result =
     (let base_score = 100;
          error_penalty = int (length (errors result)) * 20;
          warning_penalty = int (length (warnings result)) * 5
      in max 0 (base_score - error_penalty - warning_penalty))"

text \<open>
  \<open>validate_document\<close>. On two strings no statement of its \<open>try\<close> block raises, so the
  \<open>except\<close> branch is not reached.
\<close>

definition validate_document :: "string \<Rightarrow> string \<Rightarrow> validation_result" where
  "validate_document content doc_type =
     (let r0 = \<lparr>valid = True, errors = [], warnings = [], score = 0, suggestions = []\<rparr>;
          r1 = check_basic_format content r0;
          r2 = (if doc_type \<in> set [''markdown'', ''brd'', ''srs'']
                then check_markdown_structure content r1 else r1);
          r3 = (if doc_type \<in> set [''brd'', ''srs'']
                then check_document_sections content doc_type r2 else r2);
          r4 = r3\<lparr>score := calculate_score r3\<rparr>
      in r4\<lparr>valid := (score r4 \<ge> 70)\<rparr>)"


section \<open>Refiner (agents/refiner.py)\<close>

definition analyze_feedback :: "string \<Rightarrow> string" where
  "analyze_feedback feedback =
     (let feedback_lower = py_lower feedback
      in if any_keyword_in [''structure'', ''organize'', ''format'', ''section''] feedback_lower
         then ''structure_improvement''
         else if any_keyword_in [''unclear'', ''confusing'', ''explain'', ''clarify''] feedback_lower
         then ''clarity_optimization''
         else if any_keyword_in [''missing'', ''incomplete'', ''add'', ''include''] feedback_lower
         then ''completeness_check''
         else ''content_enhancement'')"


section \<open>Dictionaries\<close>

text \<open>
  A \<open>dict\<close> is an association list in insertion order with distinct keys;
  \<open>d[k] = v\<close> replaces the value of a key that is present and appends a new key.
\<close>

fun py_setitem :: "('k \<times> 'v) list \<Rightarrow> 'k \<Rightarrow> 'v \<Rightarrow> ('k \<times> 'v) list" where
  "py_setitem [] k v = [(k, v)]"
| "py_setitem ((k', v') # d) k v =
     (if k' = k then (k, v) # d else (k', v') # py_setitem d k v)"

section \<open>Section extraction (agents/analyzer.py, agents/document_writer.py)\<close>

text \<open>
  \<open>if current_section: sections[current_section] = '\n'.join(current_content).strip()\<close>.
  \<open>current_section\<close> is \<open>None\<close> before the first heading; \<open>None\<close> and the empty
  title are both false.
\<close>

definition save_section ::
    "(string \<times> string) list \<Rightarrow> string option \<Rightarrow> string list \<Rightarrow> (string \<times> string) list" where
  "save_section sections current_section current_content =
     (case current_section of
        None \<Rightarrow> sections
      | Some title \<Rightarrow>
          if title = [] then sections
          else py_setitem sections title (py_strip (py_join ''\<newline>'' current_content)))"

definition is_truthy :: "string option \<Rightarrow> bool" where
  "is_truthy current_section =
     (case current_section of None \<Rightarrow> False | Some title \<Rightarrow> title \<noteq> [])"

text \<open>
  The loop over \<open>content.split('\n')\<close>; its state is
  \<open>(sections, current_section, current_content)\<close>.
\<close>

type_synonym sections_state = "(string \<times> string) list \<times> string option \<times> string list"

definition sections_step :: "string \<Rightarrow> sections_state \<Rightarrow> sections_state" where
  "sections_step line st =
     (case st of (sections, current_section, current_content) \<Rightarrow>
        if startswith (py_strip line) ''#''
        then (save_section sections current_section current_content,
              Some (py_strip (py_lstrip ''#'' (py_strip line))), [])
        else if is_truthy current_section
        then (sections, current_section, current_content @ [line])
        else (sections, current_section, current_content))"

fun sections_loop :: "string list \<Rightarrow> sections_state \<Rightarrow> sections_state" where
  "sections_loop [] st = st"
| "sections_loop (line # lines) st = sections_loop lines (sections_step line st)"

text \<open>The statement after the loop, which saves the last section.\<close>

definition save_last :: "sections_state \<Rightarrow> (string \<times> string) list" where
  "save_last st =
     (case st of (sections, current_section, current_content) \<Rightarrow>
        save_section sections current_section current_content)"

text \<open>\<open>AnalyzerAgent._extract_sections\<close>\<close>

definition extract_sections :: "string \<Rightarrow> (string \<times> string) list" where
  "extract_sections content =
     save_last (sections_loop (py_split CHR ''\<newline>'' content) ([], None, []))"

text \<open>\<open>DocumentWriterAgent._extract_document_sections\<close>, the same statements\<close>

definition extract_document_sections :: "string \<Rightarrow> (string \<times> string) list" where
  "extract_document_sections content =
     save_last (sections_loop (py_split CHR ''\<newline>'' content) ([], None, []))"

section \<open>BRD requirements (agents/document_writer.py)\<close>

text \<open>\<open>line.startswith(tuple(chars))\<close>\<close>

definition startswith_any :: "string \<Rightarrow> string \<Rightarrow> bool" where
  "startswith_any line chars = list_ex (\<lambda>c. startswith line [c]) chars"

text \<open>\<open>line.lstrip('-').lstrip('0123456789').lstrip('.').strip()\<close>\<close>

definition strip_bullet :: "string \<Rightarrow> string" where
  "strip_bullet line =
     py_strip (py_lstrip ''.'' (py_lstrip ''0123456789'' (py_lstrip ''-'' line)))"

text \<open>
  The body of the loop of \<open>_extract_requirements\<close>; the state is
  \<open>(in_requirements_section, requirements)\<close>.
\<close>

definition requirements_step :: "string \<Rightarrow> bool \<times> string list \<Rightarrow> bool \<times> string list" where
  "requirements_step raw st =
     (case st of (in_requirements_section, requirements) \<Rightarrow>
        let line = py_strip raw in
        if any_keyword_in [''requirement'', ''functional'', ''business rule''] (py_lower line)
        then (True, requirements)
        else
          let requirements1 =
                (if in_requirements_section
                    \<and> (startswith line ''-'' \<or> startswith_any line ''123456789'')
                 then (let req = strip_bullet line
                       in if req \<noteq> [] \<and> length req > 10
                          then requirements @ [req] else requirements)
                 else requirements);
              in_requirements_section1 =
                (if startswith line ''#'' \<and> in_requirements_section
                 then False else in_requirements_section)
          in (in_requirements_section1, requirements1))"

fun requirements_loop :: "string list \<Rightarrow> bool \<times> string list \<Rightarrow> bool \<times> string list" where
  "requirements_loop [] st = st"
| "requirements_loop (raw # lines) st = requirements_loop lines (requirements_step raw st)"

definition extract_requirements :: "string \<Rightarrow> string list" where
  "extract_requirements content =
     snd (requirements_loop (py_split CHR ''\<newline>'' content) (False, []))"

section \<open>File names of the detailed specifications (agents/feature_planner.py)\<close>

text \<open>
  \<open>''.join(c if c.isalnum() or c == '_' else '_' for c in feature.lower()).strip('_')[:50]\<close>
  on a feature string of the range U+0000 .. U+00FF; \<open>safe_name_u\<close> below is the same
  expression on any string, and agrees with this one on that range.
\<close>

definition safe_name :: "string \<Rightarrow> string" where
  "safe_name feature =
     take 50 (py_strip_chars ''_''
       (map (\<lambda>c. if py_isalnum c \<or> c = CHR ''_'' then c else CHR ''_'') (py_lower feature)))"


text \<open>
  A feature string may hold any code point, while the strings above stop at U+00FF. For
  the file name a string is therefore the list of its code points. Up to U+00FF the
  character classes are the ones above, and \<open>lower()\<close> works character by character on
  a string within that range. Beyond, \<open>str.lower\<close>, \<open>str.isalnum\<close> and \<open>str.isupper\<close> are
  those of the interpreter's Unicode database, which is a parameter.
\<close>

record unicode_db =
  lower_beyond :: "nat list \<Rightarrow> nat list"
  isalnum_beyond :: "nat \<Rightarrow> bool"
  isupper_beyond :: "nat \<Rightarrow> bool"

definition u_lower :: "unicode_db \<Rightarrow> nat list \<Rightarrow> nat list" where
  "u_lower db s =
     (if list_all (\<lambda>c. c < 256) s
      then map (\<lambda>c. of_char (py_lower_char (char_of c))) s
      else lower_beyond db s)"

definition u_isalnum :: "unicode_db \<Rightarrow> nat \<Rightarrow> bool" where
  "u_isalnum db c = (if c < 256 then py_isalnum (char_of c) else isalnum_beyond db c)"

definition u_isupper :: "unicode_db \<Rightarrow> nat \<Rightarrow> bool" where
  "u_isupper db c = (if c < 256 then py_isupper (char_of c) else isupper_beyond db c)"

text \<open>
  \<open>''.join(c if c.isalnum() or c == '_' else '_' for c in feature.lower()).strip('_')[:50]\<close>;
  95 is the underscore.
\<close>

definition safe_name_u :: "unicode_db \<Rightarrow> nat list \<Rightarrow> nat list" where
  "safe_name_u db feature =
     take 50 (py_strip_chars [95]
       (map (\<lambda>c. if u_isalnum db c \<or> c = 95 then c else 95) (u_lower db feature)))"


section \<open>Python values and the completion provider\<close>

text \<open>
  The artifacts passed between the agents are dictionaries with string keys whose values
  are strings, booleans, integers, \<open>None\<close>, lists and dictionaries.
\<close>

datatype pyval =
    PNone
  | PBool bool
  | PInt int
  | PStr string
  | PList "pyval list"
  | PDict "(string \<times> pyval) list"

type_synonym pydict = "(string \<times> pyval) list"

text \<open>\<open>d.get(k, default)\<close>\<close>

definition py_get :: "pydict \<Rightarrow> string \<Rightarrow> pyval \<Rightarrow> pyval" where
  "py_get d k dflt = (case map_of d k of None \<Rightarrow> dflt | Some v \<Rightarrow> v)"

text \<open>
  \<open>llm_manager.complete\<close> is an external service. \<open>llm n\<close> is its outcome on the
  completion call number \<open>n\<close> of a run (counted from 0): \<open>Inr text\<close> when it returns,
  \<open>Inl message\<close> when it raises an exception \<open>e\<close> with \<open>str(e) = message\<close>. The prompt
  and the system prompt of a call are determined by the inputs and by the earlier outcomes
  of the run, so a provider whose outcome depends on them is an instance.
\<close>

type_synonym provider = "nat \<Rightarrow> string + string"


section \<open>Extractors of the agents\<close>

text \<open>\<open>sections\<close>, \<open>timeline\<close> (a dict of strings) and lists of strings as values\<close>

definition str_dict_value :: "(string \<times> string) list \<Rightarrow> pyval" where
  "str_dict_value d = PDict (map (\<lambda>(k, v). (k, PStr v)) d)"

definition str_list_value :: "string list \<Rightarrow> pyval" where
  "str_list_value xs = PList (map PStr xs)"

definition str_lists_value :: "(string \<times> string list) list \<Rightarrow> pyval" where
  "str_lists_value d = PDict (map (\<lambda>(k, v). (k, str_list_value v)) d)"

text \<open>\<open>ArchitectAgent._extract_components\<close>, before \<open>list(set(components))\<close>\<close>

definition components_step :: "string \<Rightarrow> string list \<Rightarrow> string list" where
  "components_step raw components =
     (let line = py_strip raw in
      if any_keyword_in [''component'', ''service'', ''module'', ''layer''] (py_lower line)
         \<and> line \<noteq> [] \<and> \<not> startswith line ''#''
      then (let component =
                  py_strip (case py_split CHR '':'' line of [] \<Rightarrow> [] | part # _ \<Rightarrow> part)
            in if component \<noteq> [] \<and> length component < 50
               then components @ [component] else components)
      else components)"

fun components_loop :: "string list \<Rightarrow> string list \<Rightarrow> string list" where
  "components_loop [] components = components"
| "components_loop (raw # lines) components =
     components_loop lines (components_step raw components)"

text \<open>
  \<open>list(set(components))\<close> enumerates the distinct components in an order that Python
  does not fix; \<open>list_of_set\<close> stands for that enumeration.
\<close>

definition extract_components :: "(string list \<Rightarrow> string list) \<Rightarrow> string \<Rightarrow> string list" where
  "extract_components list_of_set content =
     list_of_set (components_loop (py_split CHR ''\<newline>'' content) [])"

definition extract_technology_stack :: "string \<Rightarrow> (string \<times> string list) list" where
  "extract_technology_stack content =
     (let content_lower = py_lower content;
          found = (\<lambda>techs. filter (\<lambda>tech. py_in tech content_lower) techs)
      in [(''backend'',
             found [''python'', ''java'', ''node.js'', ''go'', ''rust'', ''c#'', ''.net'']),
          (''frontend'',
             found [''react'', ''vue'', ''angular'', ''svelte'', ''html'', ''css'', ''javascript'']),
          (''mobile'',
             found [''flutter'', ''react native'', ''swift'', ''kotlin'', ''java (android)'',
                    ''objective-c'']),
          (''database'',
             found [''postgresql'', ''mysql'', ''mongodb'', ''redis'', ''sqlite'',
                    ''elasticsearch'']),
          (''infrastructure'',
             found [''docker'', ''kubernetes'', ''aws'', ''azure'', ''gcp'', ''nginx'',
                    ''apache''])])"

text \<open>\<open>categories[current_category].append(feature)\<close>\<close>

definition append_to ::
    "(string \<times> string list) list \<Rightarrow> string \<Rightarrow> string \<Rightarrow> (string \<times> string list) list" where
  "append_to categories category feature =
     map (\<lambda>(k, v). if k = category then (k, v @ [feature]) else (k, v)) categories"

text \<open>\<open>FeaturePlannerAgent._extract_feature_categories\<close>\<close>

type_synonym categories_state = "string option \<times> (string \<times> string list) list"

definition categories_step :: "string \<Rightarrow> categories_state \<Rightarrow> categories_state" where
  "categories_step raw st =
     (case st of (current_category, categories) \<Rightarrow>
        let line = py_strip raw;
            current_category1 =
              (if any_keyword_in [''core'', ''must-have'', ''essential''] (py_lower line)
               then Some ''core''
               else if any_keyword_in [''enhanced'', ''should-have'', ''important'']
                         (py_lower line)
               then Some ''enhanced''
               else if any_keyword_in [''optional'', ''nice-to-have'', ''future'']
                         (py_lower line)
               then Some ''optional''
               else current_category);
            categories1 =
              (case current_category1 of
                 None \<Rightarrow> categories
               | Some category \<Rightarrow>
                   if startswith line ''-'' \<or> startswith_any line ''123456789''
                   then (let feature = strip_bullet line
                         in if feature \<noteq> [] \<and> length feature < 100
                            then append_to categories category feature
                            else categories)
                   else categories)
        in (current_category1, categories1))"

fun categories_loop :: "string list \<Rightarrow> categories_state \<Rightarrow> categories_state" where
  "categories_loop [] st = st"
| "categories_loop (raw # lines) st = categories_loop lines (categories_step raw st)"

definition extract_feature_categories :: "string \<Rightarrow> (string \<times> string list) list" where
  "extract_feature_categories content =
     snd (categories_loop (py_split CHR ''\<newline>'' content)
            (None, [(''core'', []), (''enhanced'', []), (''optional'', [])]))"

text \<open>
  \<open>FeaturePlannerAgent._extract_timeline\<close>; \<open>line.split(':', 1)\<close> of a line with a colon
  is the text before the first colon and the text after it.
\<close>

definition timeline_step :: "string \<Rightarrow> (string \<times> string) list \<Rightarrow> (string \<times> string) list" where
  "timeline_step line timeline =
     (if any_keyword_in [''phase'', ''sprint'', ''week'', ''month'', ''quarter''] (py_lower line)
         \<and> py_in '':'' line
      then py_setitem timeline
             (py_strip (takeWhile (\<lambda>c. c \<noteq> CHR '':'') line))
             (py_strip (drop 1 (dropWhile (\<lambda>c. c \<noteq> CHR '':'') line)))
      else timeline)"

fun timeline_loop :: "string list \<Rightarrow> (string \<times> string) list \<Rightarrow> (string \<times> string) list" where
  "timeline_loop [] timeline = timeline"
| "timeline_loop (line # lines) timeline = timeline_loop lines (timeline_step line timeline)"

definition extract_timeline :: "string \<Rightarrow> (string \<times> string) list" where
  "extract_timeline content = timeline_loop (py_split CHR ''\<newline>'' content) []"

text \<open>\<open>DocumentWriterAgent._extract_technical_requirements\<close>\<close>

definition technical_requirements_step ::
    "string \<Rightarrow> bool \<times> string list \<Rightarrow> bool \<times> string list" where
  "technical_requirements_step raw st =
     (case st of (in_tech_section, tech_requirements) \<Rightarrow>
        let line = py_strip raw in
        if any_keyword_in [''technical'', ''system'', ''performance'', ''security'']
             (py_lower line)
        then (True, tech_requirements)
        else
          let tech_requirements1 =
                (if in_tech_section
                    \<and> (startswith line ''-'' \<or> startswith_any line ''123456789'')
                 then (let req = strip_bullet line
                       in if req \<noteq> [] \<and> length req > 10
                          then tech_requirements @ [req] else tech_requirements)
                 else tech_requirements);
              in_tech_section1 =
                (if startswith line ''#'' \<and> in_tech_section then False else in_tech_section)
          in (in_tech_section1, tech_requirements1))"

fun technical_requirements_loop ::
    "string list \<Rightarrow> bool \<times> string list \<Rightarrow> bool \<times> string list" where
  "technical_requirements_loop [] st = st"
| "technical_requirements_loop (raw # lines) st =
     technical_requirements_loop lines (technical_requirements_step raw st)"

definition extract_technical_requirements :: "string \<Rightarrow> string list" where
  "extract_technical_requirements content =
     snd (technical_requirements_loop (py_split CHR ''\<newline>'' content) (False, []))"


section \<open>Refinement operations of the agents\<close>

text \<open>
  Each operation copies the artifact shallowly, so its \<open>metadata\<close> dictionary is shared
  between the copy and the caller's artifact. An operation returns the pair of the returned
  artifact and of the caller's artifact as it is after the call, and the number of
  completion calls made so far.

  \<open>refined['metadata']['refined'] = True; refined['metadata']['feedback'] = feedback\<close>:
  \<open>None\<close> when the statement raises (no key \<open>metadata\<close>, or a value that is no dictionary).
\<close>

definition mark_refined :: "pydict \<Rightarrow> string \<Rightarrow> pydict option" where
  "mark_refined artifact feedback =
     (case map_of artifact ''metadata'' of
        Some (PDict metadata) \<Rightarrow>
          Some (py_setitem (py_setitem metadata ''refined'' (PBool True))
                  ''feedback'' (PStr feedback))
      | _ \<Rightarrow> None)"

definition refine_analysis ::
    "provider \<Rightarrow> nat \<Rightarrow> pydict \<Rightarrow> string \<Rightarrow> (pydict \<times> pydict) \<times> nat" where
  "refine_analysis llm n analysis feedback =
     (case llm n of
        Inl e \<Rightarrow> ((analysis, analysis), Suc n)
      | Inr refined_content \<Rightarrow>
          (case mark_refined analysis feedback of
             None \<Rightarrow> ((analysis, analysis), Suc n)
           | Some metadata \<Rightarrow>
               let refined_analysis =
                     py_setitem
                       (py_setitem
                          (py_setitem analysis ''analysis_content'' (PStr refined_content))
                          ''metadata'' (PDict metadata))
                       ''sections'' (str_dict_value (extract_sections refined_content))
               in ((refined_analysis, py_setitem analysis ''metadata'' (PDict metadata)),
                   Suc n)))"

definition refine_architecture ::
    "(string list \<Rightarrow> string list) \<Rightarrow> provider \<Rightarrow> nat \<Rightarrow> pydict \<Rightarrow> string
       \<Rightarrow> (pydict \<times> pydict) \<times> nat" where
  "refine_architecture list_of_set llm n architecture feedback =
     (case llm n of
        Inl e \<Rightarrow> ((architecture, architecture), Suc n)
      | Inr refined_content \<Rightarrow>
          (case mark_refined architecture feedback of
             None \<Rightarrow> ((architecture, architecture), Suc n)
           | Some metadata \<Rightarrow>
               let refined_architecture =
                     py_setitem
                       (py_setitem
                          (py_setitem
                             (py_setitem architecture ''architecture_content''
                                (PStr refined_content))
                             ''metadata'' (PDict metadata))
                          ''components''
                          (str_list_value (extract_components list_of_set refined_content)))
                       ''technology_stack''
                       (str_lists_value (extract_technology_stack refined_content))
               in ((refined_architecture,
                    py_setitem architecture ''metadata'' (PDict metadata)), Suc n)))"

definition refine_features ::
    "provider \<Rightarrow> nat \<Rightarrow> pydict \<Rightarrow> string \<Rightarrow> (pydict \<times> pydict) \<times> nat" where
  "refine_features llm n features feedback =
     (case llm n of
        Inl e \<Rightarrow> ((features, features), Suc n)
      | Inr refined_content \<Rightarrow>
          (case mark_refined features feedback of
             None \<Rightarrow> ((features, features), Suc n)
           | Some metadata \<Rightarrow>
               let refined_features =
                     py_setitem
                       (py_setitem
                          (py_setitem
                             (py_setitem features ''features_content'' (PStr refined_content))
                             ''metadata'' (PDict metadata))
                          ''feature_categories''
                          (str_lists_value (extract_feature_categories refined_content)))
                       ''timeline'' (str_dict_value (extract_timeline refined_content))
               in ((refined_features, py_setitem features ''metadata'' (PDict metadata)),
                   Suc n)))"

text \<open>
  \<open>refine_document\<close> calls \<open>doc_type.upper()\<close> before the completion call: a
  \<open>document_type\<close> that is no string raises there, inside the \<open>try\<close>, and no call is made.
\<close>

definition refine_document ::
    "provider \<Rightarrow> nat \<Rightarrow> pydict \<Rightarrow> string \<Rightarrow> (pydict \<times> pydict) \<times> nat" where
  "refine_document llm n document feedback =
     (case py_get document ''document_type'' (PStr ''document'') of
        PStr doc_type \<Rightarrow>
          (case llm n of
             Inl e \<Rightarrow> ((document, document), Suc n)
           | Inr refined_content \<Rightarrow>
               (case mark_refined document feedback of
                  None \<Rightarrow> ((document, document), Suc n)
                | Some metadata \<Rightarrow>
                    let refined0 =
                          py_setitem
                            (py_setitem
                               (py_setitem document ''content'' (PStr refined_content))
                               ''metadata'' (PDict metadata))
                            ''sections''
                            (str_dict_value (extract_document_sections refined_content));
                        refined_document =
                          (if doc_type = ''brd''
                           then py_setitem refined0 ''requirements''
                                  (str_list_value (extract_requirements refined_content))
                           else if doc_type = ''srs''
                           then py_setitem refined0 ''technical_requirements''
                                  (str_list_value
                                     (extract_technical_requirements refined_content))
                           else refined0)
                    in ((refined_document, py_setitem document ''metadata'' (PDict metadata)),
                        Suc n)))
      | _ \<Rightarrow> ((document, document), n))"


section \<open>Collaborators and their effects\<close>









section \<open>Detailed feature specifications (agents/feature_planner.py)\<close>







section \<open>Concrete inputs\<close>

text \<open>A five-line BRD with three of the four mandatory titles as headings.\<close>

definition brd_without_summary :: string where
  "brd_without_summary =
     ''# Business Objectives\<newline># Functional Requirements\<newline># Non-functional Requirements\<newline>a\<newline>b''"








text \<open>
  A database that agrees with the interpreter's on the string of U+03D2 (an upper-case
  letter that \<open>lower()\<close> leaves as it is) followed by " plan".
\<close>

definition upsilon_db :: unicode_db where
  "upsilon_db =
     \<lparr>lower_beyond = (\<lambda>s. s), isalnum_beyond = (\<lambda>c. c = 978),
      isupper_beyond = (\<lambda>c. c = 978)\<rparr>"


section \<open>Evaluation of the string primitives\<close>

lemmas py_char_eval =
  py_isspace_def py_isupper_def py_isalnum_def py_lower_char_def char_of_def bit_Suc_0_iff

lemma py_split_not_Nil [simp]: "py_split d s \<noteq> []"
  by (induction s) (auto simp: cons_first_def split: list.splits)


section \<open>Validation score\<close>

lemma calculate_score_range: "0 \<le> calculate_score r \<and> calculate_score r \<le> 100"
  by (simp add: calculate_score_def Let_def)

lemma calculate_score_mono:
  "calculate_score (r\<lparr>errors := errors r @ es, warnings := warnings r @ ws\<rparr>)
     \<le> calculate_score r"
  by (simp add: calculate_score_def Let_def)

lemma calculate_score_eq:
  "calculate_score r
     = max 0 (100 - 20 * int (length (errors r)) - 5 * int (length (warnings r)))"
  by (simp add: calculate_score_def Let_def)

lemma validate_document_score_eq:
  "score (validate_document c t) = calculate_score (validate_document c t)"
  by (simp add: validate_document_def Let_def calculate_score_def)

lemma validate_document_valid_eq:
  "valid (validate_document c t) = (score (validate_document c t) \<ge> 70)"
  by (simp add: validate_document_def Let_def)

text \<open>
  Claim C5. For every content and document type, the score returned by
  \<open>validate_document\<close> is \<open>max(0, 100 - 20 * len(errors) - 5 * len(warnings))\<close> of the
  errors and warnings it returns, lies between 0 and 100, and \<open>valid\<close> holds exactly when
  the score is at least 70; adding errors or warnings to a result never raises the score
  that \<open>_calculate_score\<close> gives it.
\<close>

theorem validate_document_score:
  "score (validate_document content doc_type)
     = max 0 (100 - 20 * int (length (errors (validate_document content doc_type)))
                  - 5 * int (length (warnings (validate_document content doc_type))))
   \<and> 0 \<le> score (validate_document content doc_type)
   \<and> score (validate_document content doc_type) \<le> 100
   \<and> valid (validate_document content doc_type)
       = (score (validate_document content doc_type) \<ge> 70)
   \<and> (\<forall>r es ws.
         calculate_score (r\<lparr>errors := errors r @ es, warnings := warnings r @ ws\<rparr>)
           \<le> calculate_score r)"
proof -
  let ?r = "validate_document content doc_type"
  have a: "score ?r
             = max 0 (100 - 20 * int (length (errors ?r)) - 5 * int (length (warnings ?r)))"
    using validate_document_score_eq [of content doc_type] calculate_score_eq [of ?r]
    by simp
  have b: "0 \<le> score ?r" "score ?r \<le> 100"
    using validate_document_score_eq [of content doc_type] calculate_score_range [of ?r]
    by simp_all
  show ?thesis
    using a b validate_document_valid_eq calculate_score_mono by blast
qed


section \<open>Mandatory sections of a BRD\<close>

lemma check_document_sections_errors:
  "validation_rules t = Some req \<Longrightarrow>
   errors (check_document_sections c t r)
     = errors r @ map (\<lambda>section. ''Missing required section: '' @ section)
                     (missing_sections req c)"
  by (simp add: check_document_sections_def Let_def)

lemma validate_document_brd_errors:
  "\<exists>es. errors (validate_document c ''brd'')
          = es @ map (\<lambda>section. ''Missing required section: '' @ section)
                     (missing_sections [''Executive Summary'', ''Business Objectives'',
                        ''Functional Requirements'', ''Non-functional Requirements''] c)"
proof -
  have v: "validation_rules ''brd''
             = Some [''Executive Summary'', ''Business Objectives'',
                     ''Functional Requirements'', ''Non-functional Requirements'']"
    by (simp add: validation_rules_def)
  show ?thesis
    by (simp add: validate_document_def Let_def check_document_sections_errors [OF v])
qed

lemma missing_sections_mem:
  "section \<in> set req \<Longrightarrow> \<not> py_in (py_lower section) (py_lower c) \<Longrightarrow>
   section \<in> set (missing_sections req c)"
  by (simp add: missing_sections_def Let_def)

text \<open>
  Claim C4, as stated, fails: the document \<open>brd_without_summary\<close> has no occurrence of
  "Executive Summary", gets the single error for it and the score 80, and is valid.
\<close>

theorem brd_missing_section_counterexample:
  "\<not> py_in (py_lower ''Executive Summary'') (py_lower brd_without_summary)
   \<and> errors (validate_document brd_without_summary ''brd'')
       = [''Missing required section: Executive Summary'']
   \<and> score (validate_document brd_without_summary ''brd'') = 80
   \<and> valid (validate_document brd_without_summary ''brd'')"
  by code_simp

text \<open>
  Claim C4, amended. For every content that lacks a mandatory BRD section title
  (case-insensitively, as a substring), \<open>validate_document(content, "brd")\<close> returns the
  error "Missing required section: <title>" for it, at least as many errors as titles are
  missing, and a score of at most 100 - 20 * (number of missing titles); \<open>valid\<close> is
  false whenever two or more titles are missing. When that error is the only one and
  there are at most two warnings, the score is at least 70 and \<open>valid\<close> is true.
\<close>

theorem brd_missing_section_errors:
  assumes "section \<in> set [''Executive Summary'', ''Business Objectives'',
                             ''Functional Requirements'', ''Non-functional Requirements'']"
    and "\<not> py_in (py_lower section) (py_lower content)"
  shows "(''Missing required section: '' @ section)
            \<in> set (errors (validate_document content ''brd''))
    \<and> length (missing_sections [''Executive Summary'', ''Business Objectives'',
                 ''Functional Requirements'', ''Non-functional Requirements''] content)
          \<le> length (errors (validate_document content ''brd''))
    \<and> score (validate_document content ''brd'')
          \<le> 100 - 20 * int (length (missing_sections [''Executive Summary'',
                 ''Business Objectives'', ''Functional Requirements'',
                 ''Non-functional Requirements''] content))
    \<and> (2 \<le> length (missing_sections [''Executive Summary'', ''Business Objectives'',
                 ''Functional Requirements'', ''Non-functional Requirements''] content)
         \<longrightarrow> \<not> valid (validate_document content ''brd''))
    \<and> (length (errors (validate_document content ''brd'')) = 1
         \<and> length (warnings (validate_document content ''brd'')) \<le> 2
         \<longrightarrow> 70 \<le> score (validate_document content ''brd'')
             \<and> valid (validate_document content ''brd''))"
proof -
  let ?req = "[''Executive Summary'', ''Business Objectives'',
               ''Functional Requirements'', ''Non-functional Requirements'']"
  let ?m = "missing_sections ?req content"
  let ?r = "validate_document content ''brd''"
  obtain es where es: "errors ?r
      = es @ map (\<lambda>section. ''Missing required section: '' @ section) ?m"
    using validate_document_brd_errors [of content] by blast
  have mem: "section \<in> set ?m"
    using assms by (rule missing_sections_mem)
  have len: "length ?m \<le> length (errors ?r)"
    by (simp add: es)
  have le4: "length ?m \<le> 4"
    using length_filter_le [of _ ?req] by (simp add: missing_sections_def Let_def)
  have sc: "score ?r
              = max 0 (100 - 20 * int (length (errors ?r)) - 5 * int (length (warnings ?r)))"
    using validate_document_score_eq [of content "''brd''"] calculate_score_eq [of ?r]
    by simp
  have bound: "score ?r \<le> 100 - 20 * int (length ?m)"
    using sc len le4 by simp
  have inv: "2 \<le> length ?m \<longrightarrow> \<not> valid ?r"
    using bound validate_document_valid_eq [of content "''brd''"] by auto
  have one: "length (errors ?r) = 1 \<and> length (warnings ?r) \<le> 2
               \<longrightarrow> 70 \<le> score ?r \<and> valid ?r"
    using sc validate_document_valid_eq [of content "''brd''"] by auto
  have m: "(''Missing required section: '' @ section) \<in> set (errors ?r)"
    using mem by (simp add: es)
  show ?thesis
    by (intro conjI) (rule m len bound inv one)+
qed

theorem brd_missing_section_errors_witness:
  "''Missing required section: Executive Summary''
       \<in> set (errors (validate_document ''x'' ''brd''))
   \<and> \<not> valid (validate_document ''x'' ''brd'')
   \<and> ''Missing required section: Executive Summary''
       \<in> set (errors (validate_document brd_without_summary ''brd''))
   \<and> valid (validate_document brd_without_summary ''brd'')"
proof -
  have h1: "''Executive Summary'' \<in> set [''Executive Summary'', ''Business Objectives'',
              ''Functional Requirements'', ''Non-functional Requirements'']"
    by simp
  have h2: "\<not> py_in (py_lower ''Executive Summary'') (py_lower ''x'')"
    by (simp add: py_lower_def)
  have h3: "2 \<le> length (missing_sections [''Executive Summary'', ''Business Objectives'',
              ''Functional Requirements'', ''Non-functional Requirements''] ''x'')"
    by (simp add: missing_sections_def Let_def py_lower_def)
  have k2: "\<not> py_in (py_lower ''Executive Summary'') (py_lower brd_without_summary)"
    by code_simp
  have k3: "length (errors (validate_document brd_without_summary ''brd'')) = 1
            \<and> length (warnings (validate_document brd_without_summary ''brd'')) \<le> 2"
    by code_simp
  have a: "''Missing required section: Executive Summary''
             \<in> set (errors (validate_document ''x'' ''brd''))
           \<and> \<not> valid (validate_document ''x'' ''brd'')"
    using brd_missing_section_errors [OF h1 h2] h3 by simp
  have b: "''Missing required section: Executive Summary''
             \<in> set (errors (validate_document brd_without_summary ''brd''))
           \<and> valid (validate_document brd_without_summary ''brd'')"
    using brd_missing_section_errors [OF h1 k2] k3 by simp
  show ?thesis
    using a b by simp
qed


section \<open>Refinement strategy\<close>

text \<open>
  Claim C6, as stated, fails: "The section is unclear" contains "unclear" and is given
  the structural strategy, whose keywords are tested first.
\<close>

theorem analyze_feedback_unclear_counterexample:
  "py_in ''unclear'' (py_lower ''The section is unclear'')
   \<and> analyze_feedback ''The section is unclear'' = ''structure_improvement''"
  by (simp add: analyze_feedback_def any_keyword_in_def py_lower_def py_char_eval)

text \<open>
  Claim C6, amended. The strategy is a function of the feedback text alone, and for
  every feedback whose lower-cased form contains "unclear" it is \<open>clarity_optimization\<close>,
  whatever keywords of the completeness bucket occur, unless the lower-cased feedback
  contains one of the structural keywords (structure, organize, format, section), which
  are tested first and select \<open>structure_improvement\<close>.
\<close>

theorem analyze_feedback_unclear:
  assumes "py_in ''unclear'' (py_lower feedback)"
  shows "analyze_feedback feedback
           = (if any_keyword_in [''structure'', ''organize'', ''format'', ''section'']
                   (py_lower feedback)
              then ''structure_improvement'' else ''clarity_optimization'')"
  using assms by (simp add: analyze_feedback_def Let_def any_keyword_in_def)

theorem analyze_feedback_unclear_witness:
  "py_in ''unclear'' (py_lower ''Unclear, add more'')
   \<and> analyze_feedback ''Unclear, add more'' = ''clarity_optimization''"
proof -
  have h: "py_in ''unclear'' (py_lower ''Unclear, add more'')"
    by (simp add: py_lower_def py_char_eval)
  have n: "\<not> any_keyword_in [''structure'', ''organize'', ''format'', ''section'']
               (py_lower ''Unclear, add more'')"
    by (simp add: any_keyword_in_def py_lower_def py_char_eval)
  show ?thesis
    using analyze_feedback_unclear [OF h] h n by simp
qed


section \<open>Section extraction\<close>

lemma py_split_append:
  "py_split d (a @ d # b) = py_split d a @ py_split d b"
proof (induction a)
  case Nil
  show ?case by simp
next
  case (Cons c cs)
  then show ?case
    by (cases "py_split d cs") (auto simp: cons_first_def)
qed

lemma sections_loop_preamble:
  "\<forall>line\<in>set pre. \<not> startswith (py_strip line) ''#'' \<Longrightarrow>
   sections_loop (pre @ rest) (sections, None, []) = sections_loop rest (sections, None, [])"
  by (induction pre) (auto simp: sections_step_def is_truthy_def)

lemma sections_loop_no_heading:
  "\<forall>line\<in>set lines. \<not> startswith (py_strip line) ''#'' \<Longrightarrow>
   save_last (sections_loop lines ([], None, [])) = []"
  using sections_loop_preamble [of lines "[]" "[]"]
  by (simp add: save_last_def save_section_def)

text \<open>
  Claim C8. For every text none of whose lines is a heading line (a line whose stripped
  form starts with \<open>#\<close>), both section extractors return the empty mapping; and every
  line before the first heading line is discarded: a text \<open>preamble\<close> without heading
  lines, put in front of any text \<open>rest\<close>, leaves the extracted mapping of \<open>rest\<close> as it
  is, so no section is opened for the preamble and no body contains it.
\<close>

theorem extract_sections_preamble:
  "((\<forall>line\<in>set (py_split CHR ''\<newline>'' content). \<not> startswith (py_strip line) ''#'')
      \<longrightarrow> extract_sections content = [] \<and> extract_document_sections content = [])
   \<and> ((\<forall>line\<in>set (py_split CHR ''\<newline>'' preamble). \<not> startswith (py_strip line) ''#'')
      \<longrightarrow> extract_sections (preamble @ CHR ''\<newline>'' # rest) = extract_sections rest
        \<and> extract_document_sections (preamble @ CHR ''\<newline>'' # rest)
            = extract_document_sections rest)"
  by (simp add: extract_sections_def extract_document_sections_def py_split_append
        sections_loop_preamble sections_loop_no_heading)


theorem extract_sections_preamble_witness:
  "extract_sections ''intro\<newline>more'' = []
   \<and> extract_sections ''intro\<newline># A\<newline>x'' = [(''A'', ''x'')]"
proof -
  have h1: "\<forall>line\<in>set (py_split CHR ''\<newline>'' ''intro\<newline>more'').
              \<not> startswith (py_strip line) ''#''"
    by code_simp
  have h2: "\<forall>line\<in>set (py_split CHR ''\<newline>'' ''intro''). \<not> startswith (py_strip line) ''#''"
    by code_simp
  have e: "extract_sections ''# A\<newline>x'' = [(''A'', ''x'')]"
    by code_simp
  show ?thesis
    using extract_sections_preamble [of "''intro\<newline>more''" "''intro''" "''# A\<newline>x''"]
      h1 h2 e
    by simp
qed


section \<open>BRD requirements\<close>






section \<open>Sanitized file names\<close>

lemma py_lower_char_not_upper: "\<not> py_isupper (py_lower_char c)"
  unfolding py_lower_char_def py_isupper_def Let_def
  by (auto simp: mod_if)

lemma py_lower_char_ascii:
  "(of_char c :: nat) < 128 \<Longrightarrow> (of_char (py_lower_char c) :: nat) < 128"
  unfolding py_lower_char_def py_isupper_def Let_def
  by (auto simp: mod_if)

lemma set_py_strip_chars: "set (py_strip_chars chars s) \<subseteq> set s"
  unfolding py_strip_chars_def
proof
  fix x
  assume "x \<in> set (rev (dropWhile (\<lambda>c. c \<in> set chars)
                           (rev (dropWhile (\<lambda>c. c \<in> set chars) s))))"
  then have "x \<in> set (dropWhile (\<lambda>c. c \<in> set chars)
                         (rev (dropWhile (\<lambda>c. c \<in> set chars) s)))"
    by simp
  then have "x \<in> set (rev (dropWhile (\<lambda>c. c \<in> set chars) s))"
    by (rule set_dropWhileD)
  then have "x \<in> set (dropWhile (\<lambda>c. c \<in> set chars) s)"
    by simp
  then show "x \<in> set s"
    by (rule set_dropWhileD)
qed

lemma safe_name_char:
  assumes "c \<in> set (safe_name feature)"
  shows "\<exists>c0\<in>set feature.
           c = (if py_isalnum (py_lower_char c0) \<or> py_lower_char c0 = CHR ''_''
                then py_lower_char c0 else CHR ''_'')"
proof -
  have "c \<in> set (py_strip_chars ''_''
       (map (\<lambda>c. if py_isalnum c \<or> c = CHR ''_'' then c else CHR ''_'') (py_lower feature)))"
    using assms unfolding safe_name_def by (rule in_set_takeD)
  then have "c \<in> set (map (\<lambda>c. if py_isalnum c \<or> c = CHR ''_'' then c else CHR ''_'')
               (py_lower feature))"
    by (rule subsetD [OF set_py_strip_chars])
  then show ?thesis
    by (auto simp: py_lower_def)
qed

lemma safe_name_chars:
  "c \<in> set (safe_name feature) \<Longrightarrow> c = CHR ''_'' \<or> (py_isalnum c \<and> \<not> py_isupper c)"
  using safe_name_char [of c feature] py_lower_char_not_upper
  by (auto split: if_splits)

lemma safe_name_chars_ascii:
  assumes "\<forall>c0\<in>set feature. (of_char c0 :: nat) < 128" and "c \<in> set (safe_name feature)"
  shows "(of_char c :: nat) = 95 \<or> (48 \<le> (of_char c :: nat) \<and> (of_char c :: nat) \<le> 57)
           \<or> (97 \<le> (of_char c :: nat) \<and> (of_char c :: nat) \<le> 122)"
proof -
  obtain c0 where c0: "c0 \<in> set feature"
    and c: "c = (if py_isalnum (py_lower_char c0) \<or> py_lower_char c0 = CHR ''_''
                 then py_lower_char c0 else CHR ''_'')"
    using safe_name_char [OF assms(2)] by blast
  have lt: "(of_char (py_lower_char c0) :: nat) < 128"
    using assms(1) c0 py_lower_char_ascii by blast
  have nu: "\<not> py_isupper (py_lower_char c0)"
    by (rule py_lower_char_not_upper)
  show ?thesis
  proof (cases "py_isalnum (py_lower_char c0)")
    case True
    then show ?thesis
      using c lt nu unfolding py_isalnum_def py_isupper_def Let_def by auto
  next
    case False
    then show ?thesis using c by auto
  qed
qed

lemma no_dotdot: "CHR ''.'' \<notin> set s \<Longrightarrow> \<not> py_in ''..'' (s @ ''.md'')"
  by (induction s) auto

lemma of_char_lt_256: "(of_char c :: nat) < 256"
  using range_nat_of_char by auto

text \<open>
  Claim C7, as stated, fails: in the string of U+03D2 followed by " plan" the first
  character is an upper-case letter that \<open>lower()\<close> leaves as it is and that is
  alphanumeric, so the name keeps it.
\<close>

theorem safe_name_upper_case_counterexample:
  "u_isupper upsilon_db 978 \<and> u_isalnum upsilon_db 978
   \<and> u_lower upsilon_db [978, 32, 112, 108, 97, 110] = [978, 32, 112, 108, 97, 110]
   \<and> safe_name_u upsilon_db [978, 32, 112, 108, 97, 110] = [978, 95, 112, 108, 97, 110]
   \<and> 978 \<in> set (safe_name_u upsilon_db [978, 32, 112, 108, 97, 110])"
  by code_simp

lemma u_isalnum_of_char: "u_isalnum db (of_char c) = py_isalnum c"
  by (simp add: u_isalnum_def of_char_lt_256)

lemma u_isupper_of_char: "u_isupper db (of_char c) = py_isupper c"
  by (simp add: u_isupper_def of_char_lt_256)

lemma u_lower_latin1: "u_lower db (map of_char f) = map of_char (py_lower f)"
  by (simp add: u_lower_def py_lower_def list_all_iff of_char_lt_256)

lemma of_char_underscore: "(of_char c = (95::nat)) = (c = CHR ''_'')"
proof -
  have "(of_char CHR ''_'' :: nat) = 95" by simp
  then show ?thesis by (metis of_char_eq_iff)
qed

lemma dropWhile_of_char:
  "dropWhile (\<lambda>c. c \<in> set [95::nat]) (map of_char xs)
     = map of_char (dropWhile (\<lambda>c. c \<in> set ''_'') xs)"
  by (induction xs) (simp_all add: of_char_underscore)

lemma strip_map_of_char:
  "py_strip_chars [95::nat] (map of_char xs) = map of_char (py_strip_chars ''_'' xs)"
  unfolding py_strip_chars_def
  by (simp only: dropWhile_of_char rev_map)

lemma safe_name_latin1: "safe_name_u db (map of_char f) = map of_char (safe_name f)"
proof -
  have h: "map (\<lambda>c. if u_isalnum db c \<or> c = 95 then c else 95) (map of_char (py_lower f))
          = map of_char
              (map (\<lambda>c. if py_isalnum c \<or> c = CHR ''_'' then c else CHR ''_'') (py_lower f))"
    by (simp add: u_isalnum_of_char of_char_underscore)
  show ?thesis
    unfolding safe_name_u_def safe_name_def u_lower_latin1 h strip_map_of_char take_map ..
qed

lemma latin1_feature:
  assumes "\<forall>c\<in>set feature. c < (256::nat)"
  shows "map of_char (map char_of feature :: string) = feature"
  using assms by (induction feature) simp_all

lemma safe_name_u_char:
  assumes "c \<in> set (safe_name_u db feature)"
  shows "c = 95 \<or> (u_isalnum db c \<and> c \<in> set (u_lower db feature))"
proof -
  have "c \<in> set (py_strip_chars [95]
       (map (\<lambda>c. if u_isalnum db c \<or> c = 95 then c else 95) (u_lower db feature)))"
    using assms unfolding safe_name_u_def by (rule in_set_takeD)
  then have "c \<in> set (map (\<lambda>c. if u_isalnum db c \<or> c = 95 then c else 95)
               (u_lower db feature))"
    by (rule subsetD [OF set_py_strip_chars])
  then show ?thesis
    by (auto split: if_splits)
qed

lemma safe_name_u_latin1_chars:
  assumes "\<forall>c\<in>set feature. c < (256::nat)" and "c \<in> set (safe_name_u db feature)"
  shows "c = 95 \<or> (u_isalnum db c \<and> \<not> u_isupper db c)"
proof -
  have "safe_name_u db feature = map of_char (safe_name (map char_of feature))"
    using safe_name_latin1 [of db "map char_of feature"] latin1_feature [OF assms(1)] by simp
  then obtain c' where c': "c' \<in> set (safe_name (map char_of feature))" and c: "c = of_char c'"
    using assms(2) by auto
  show ?thesis
    using safe_name_chars [OF c'] c
    by (auto simp: u_isalnum_of_char u_isupper_of_char)
qed

lemma safe_name_u_ascii_chars:
  assumes "\<forall>c\<in>set feature. c < (128::nat)" and "c \<in> set (safe_name_u db feature)"
  shows "c = 95 \<or> (48 \<le> c \<and> c \<le> 57) \<or> (97 \<le> c \<and> c \<le> 122)"
proof -
  have l: "\<forall>c\<in>set feature. c < (256::nat)"
    using assms(1) by auto
  have "safe_name_u db feature = map of_char (safe_name (map char_of feature))"
    using safe_name_latin1 [of db "map char_of feature"] latin1_feature [OF l] by simp
  then obtain c' where c': "c' \<in> set (safe_name (map char_of feature))" and c: "c = of_char c'"
    using assms(2) by auto
  have a: "\<forall>c0\<in>set (map char_of feature :: string). (of_char c0 :: nat) < 128"
    using assms(1) by auto
  show ?thesis
    using safe_name_chars_ascii [OF a c'] c by simp
qed

lemma safe_name_example:
  "safe_name ''Real-Time Chat/Notifications!'' = ''real_time_chat_notifications''"
  by code_simp

text \<open>
  Claim C7, amended. For every feature string, each character of the name generated for
  its detailed specification is the underscore or an alphanumeric character of the
  lower-cased feature string; for a feature string over ASCII these are the letters
  \<open>a\<close>..\<open>z\<close>, the digits and \<open>_\<close>, and for one within U+0000 .. U+00FF no character of
  the name is upper-case. The name has at most 50 characters and holds neither \<open>/\<close> nor
  \<open>.\<close>, so the file name made of it and the extension \<open>.md\<close> has no \<open>/\<close> and no
  \<open>..\<close>; "Real-Time Chat/Notifications!" gives \<open>real_time_chat_notifications\<close>.
\<close>

theorem safe_name_u_sanitized:
  "(\<forall>c\<in>set (safe_name_u db feature).
       c = 95 \<or> (u_isalnum db c \<and> c \<in> set (u_lower db feature)))
   \<and> ((\<forall>c\<in>set feature. c < 128) \<longrightarrow>
        (\<forall>c\<in>set (safe_name_u db feature).
           c = 95 \<or> (48 \<le> c \<and> c \<le> 57) \<or> (97 \<le> c \<and> c \<le> 122)))
   \<and> ((\<forall>c\<in>set feature. c < 256) \<longrightarrow>
        (\<forall>c\<in>set (safe_name_u db feature).
           c = 95 \<or> (u_isalnum db c \<and> \<not> u_isupper db c)))
   \<and> length (safe_name_u db feature) \<le> 50
   \<and> 47 \<notin> set (safe_name_u db feature)
   \<and> 46 \<notin> set (safe_name_u db feature)
   \<and> safe_name_u db (map of_char ''Real-Time Chat/Notifications!'')
       = map of_char ''real_time_chat_notifications''"
proof -
  have a: "\<forall>c\<in>set (safe_name_u db feature).
             c = 95 \<or> (u_isalnum db c \<and> c \<in> set (u_lower db feature))"
    by (intro ballI safe_name_u_char)
  have b: "(\<forall>c\<in>set feature. c < 128) \<longrightarrow>
        (\<forall>c\<in>set (safe_name_u db feature).
           c = 95 \<or> (48 \<le> c \<and> c \<le> 57) \<or> (97 \<le> c \<and> c \<le> 122))"
    by (intro impI ballI) (rule safe_name_u_ascii_chars; assumption)
  have c: "(\<forall>c\<in>set feature. c < 256) \<longrightarrow>
        (\<forall>c\<in>set (safe_name_u db feature).
           c = 95 \<or> (u_isalnum db c \<and> \<not> u_isupper db c))"
    by (intro impI ballI) (rule safe_name_u_latin1_chars; assumption)
  have l: "length (safe_name_u db feature) \<le> 50"
    by (simp add: safe_name_u_def)
  have sl: "\<not> u_isalnum db 47" and dt: "\<not> u_isalnum db 46"
    by (simp_all add: u_isalnum_def py_isalnum_def)
  have s: "47 \<notin> set (safe_name_u db feature)"
    using safe_name_u_char [of 47 db feature] sl by auto
  have d: "46 \<notin> set (safe_name_u db feature)"
    using safe_name_u_char [of 46 db feature] dt by auto
  have e: "safe_name_u db (map of_char ''Real-Time Chat/Notifications!'')
             = map of_char ''real_time_chat_notifications''"
    using safe_name_latin1 [of db "''Real-Time Chat/Notifications!''"] safe_name_example
    by simp
  show ?thesis
    by (intro conjI) (rule a b c l s d e)+
qed

theorem safe_name_u_sanitized_witness:
  "safe_name_u upsilon_db (map of_char ''A/../b C'') = map of_char ''a____b_c''
   \<and> length (safe_name_u upsilon_db (map of_char ''A/../b C'')) \<le> 50
   \<and> 47 \<notin> set (safe_name_u upsilon_db (map of_char ''A/../b C''))
   \<and> list_all (\<lambda>c. c = 95 \<or> (48 \<le> c \<and> c \<le> 57) \<or> (97 \<le> c \<and> c \<le> 122))
        (safe_name_u upsilon_db (map of_char ''A/../b C''))"
proof -
  have s: "safe_name ''A/../b C'' = ''a____b_c''"
    by code_simp
  have e: "safe_name_u upsilon_db (map of_char ''A/../b C'') = map of_char ''a____b_c''"
    using safe_name_latin1 [of upsilon_db "''A/../b C''"] s by simp
  have h: "\<forall>c\<in>set (map of_char ''A/../b C'' :: nat list). c < 128"
    by simp
  have t: "(\<forall>c\<in>set (safe_name_u upsilon_db (map of_char ''A/../b C'')).
              c = 95 \<or> (48 \<le> c \<and> c \<le> 57) \<or> (97 \<le> c \<and> c \<le> 122))
           \<and> length (safe_name_u upsilon_db (map of_char ''A/../b C'')) \<le> 50
           \<and> 47 \<notin> set (safe_name_u upsilon_db (map of_char ''A/../b C''))"
    using safe_name_u_sanitized [of upsilon_db "map of_char ''A/../b C''"] h by blast
  show ?thesis
    unfolding list_all_iff using t e by blast
qed


section \<open>Refinement operations\<close>

text \<open>
  Claim C10. For every artifact dictionary and feedback string, each of
  \<open>refine_analysis\<close>, \<open>refine_architecture\<close>, \<open>refine_document\<close> and \<open>refine_features\<close>
  returns an artifact (every exception of its body is caught), and when the completion
  call raises it returns the input artifact, which the call has left as it was.
\<close>

theorem refine_returns_input_on_failure:
  assumes "llm n = Inl message"
  shows "fst (refine_analysis llm n artifact feedback) = (artifact, artifact)
       \<and> fst (refine_architecture list_of_set llm n artifact feedback) = (artifact, artifact)
       \<and> fst (refine_document llm n artifact feedback) = (artifact, artifact)
       \<and> fst (refine_features llm n artifact feedback) = (artifact, artifact)"
  using assms
  by (simp add: refine_analysis_def refine_architecture_def refine_document_def
        refine_features_def split: pyval.splits)

theorem refine_returns_input_on_failure_witness:
  "fst (refine_analysis (\<lambda>n. Inl ''provider down'') 0 [(''metadata'', PDict [])] ''shorter'')
     = ([(''metadata'', PDict [])], [(''metadata'', PDict [])])
   \<and> fst (refine_document (\<lambda>n. Inl ''provider down'') 0 [(''metadata'', PDict [])] ''shorter'')
     = ([(''metadata'', PDict [])], [(''metadata'', PDict [])])"
  using refine_returns_input_on_failure
          [of "\<lambda>n. Inl ''provider down''" 0 "''provider down''" "[(''metadata'', PDict [])]"
              "''shorter''"]
  by simp


section \<open>Detailed feature specifications\<close>





lemma py_setitem_subset: "set (py_setitem d k v) \<subseteq> insert (k, v) (set d)"
  by (induction d) (auto split: if_splits)












end
